theory Spec2Isabelle
  imports Complex_Main "HOL-Library.Sublist"
begin

section \<open>The data of main.go\<close>

text \<open>
  The JSON structures of the dictionary response. \<open>Translation\<close> and \<open>Example\<close> refer to
  each other, so they are one mutually recursive datatype; the other structs are records.
  The field \<open>Head\<close> (Go's \<open>any\<close>) is kept as the text of its JSON value.
\<close>

datatype Synonym = Synonym (syn_Text: string)

datatype Meaning = Meaning (mean_Text: string)

datatype Translation =
  Translation (tr_Text: string) (tr_Pos: string) (Syn: "Synonym list")
    (Mean: "Meaning list") (Ex: "Example list")
and Example =
  Example (ex_Text: string) (ex_Tr: "Translation list")

record Definition =
  Text :: string
  Pos :: string
  Tr :: "Translation list"

record DicResult =
  Head :: string
  Def :: "Definition list"

record VoiceSettings =
  Stability :: real
  SimilarityBoost :: real

record ElevenLabsRequest =
  req_Text :: string
  ModelID :: string
  VoiceID :: string
  VoiceSettings :: VoiceSettings

text \<open>
  A spreadsheet row is the list of its cells, each cell given by the value of its
  \<open>String()\<close> method.
\<close>

record row =
  Cells :: "string list"

section \<open>The outside world\<close>

text \<open>
  Everything the loop body asks of the outside world is answered by a value of type
  \<open>world\<close>, one per row: the answer of each library call that the body can make while it
  works on that row.

  \<^item> \<open>http_Get\<close>: the result of \<open>http.Get(url)\<close>. A response carries its status code and
    its body; the body is given by what \<open>io.ReadAll\<close> and \<open>json.Unmarshal\<close> make of it
    (unreadable, not JSON for a \<open>DicResult\<close>, or the decoded \<open>DicResult\<close>).
  \<^item> \<open>os_Stat_err\<close>: \<open>os.Stat(audioPath)\<close> fails with an error for which
    \<open>os.IsNotExist\<close> is false (permission denied, name too long, not a directory).
  \<^item> \<open>json_Marshal_err\<close>, \<open>http_NewRequest_err\<close>, \<open>os_Create_err\<close>,
    \<open>csv_Write_err\<close>: the call returns a non-nil error.
  \<^item> \<open>client_Do\<close>: the result of \<open>client.Do(req)\<close>, a status code and the body bytes.
  \<^item> \<open>io_Copy\<close>: \<open>None\<close> when \<open>io.Copy\<close> writes the whole body, \<open>Some n\<close> when it
    fails after \<open>n\<close> bytes have reached the file.
\<close>

datatype dic_body = ReadError | Malformed | Decoded DicResult

datatype get_result = GetError | GetResponse int dic_body

datatype do_result = DoError | DoResponse int string

record world =
  http_Get :: get_result
  os_Stat_err :: bool
  json_Marshal_err :: bool
  http_NewRequest_err :: bool
  client_Do :: do_result
  os_Create_err :: bool
  io_Copy :: "nat option"
  csv_Write_err :: bool

text \<open>
  The values read once before the loop: the two API keys from the process environment,
  and the library function \<open>filepath.Join\<close>, which is not part of this program and is
  taken as it comes.
\<close>

record config =
  yandexAPIKey :: string
  elevenLabsAPIKey :: string
  filepath_Join :: "string \<Rightarrow> string \<Rightarrow> string"

section \<open>The state of the loop\<close>

text \<open>
  The messages of the \<open>log.Printf\<close> calls in the loop body, one constructor per call, with
  the values it formats.
\<close>

datatype log_msg =
    ErrorFetchingTranslation string
  | ErrorReadingResponse string
  | ErrorParsingJSON string
  | ErrorCreatingRequest string
  | ErrorCreatingHTTPRequest string
  | ErrorGeneratingAudio string
  | ElevenLabsAPIError string int string
  | ErrorCreatingAudioFile string
  | ErrorSavingAudioFile string
  | CreatedAudioFile string
  | AudioFileAlreadyExists string
  | ErrorWritingCSVRow string

text \<open>
  What the program does to the outside, in order: the translation request
  (\<open>http.Get\<close> with its URL), the synthesis request (\<open>client.Do\<close> with the URL, the
  headers and the request that was marshalled into the body) and the log lines.
\<close>

datatype event =
    HttpGet string
  | HttpPost string "(string \<times> string) list" ElevenLabsRequest
  | Log log_msg

text \<open>
  \<open>files\<close> is the audio store: the content of the file at each path, \<open>None\<close> where
  there is no file. \<open>csv\<close> holds the rows handed to \<open>csvWriter.Write\<close>, in order.
  The progress display on standard output is not part of the state.
\<close>

record state =
  files :: "string \<Rightarrow> string option"
  csv :: "string list list"
  trace :: "event list"
  processedWords :: nat

section \<open>The loop of main\<close>

definition audioDir :: string where
  "audioDir = ''audio''"

definition lang :: string where
  "lang = ''en-ru''"

definition yandexBaseURL :: string where
  "yandexBaseURL = ''https://dictionary.yandex.net/api/v1/dicservice.json/lookup''"

definition elevenLabsBaseURL :: string where
  "elevenLabsBaseURL = ''https://api.elevenlabs.io/v1/text-to-speech''"

definition voiceID :: string where
  "voiceID = ''21m00Tcm4TlvDq8ikWAM''"

definition StatusOK :: int where
  "StatusOK = 200"

definition log_Printf :: "log_msg \<Rightarrow> state \<Rightarrow> state" where
  "log_Printf m st = st\<lparr>trace := trace st @ [Log m]\<rparr>"

text \<open>Lines 172-175: the first translation of the first definition, if there is one.\<close>

definition russian :: "DicResult \<Rightarrow> string" where
  "russian result =
     (if length (Def result) > 0 \<and> length (Tr (Def result ! 0)) > 0
      then tr_Text (Tr (Def result ! 0) ! 0)
      else '''')"

text \<open>Lines 178-179.\<close>

definition audioFilename :: "string \<Rightarrow> string" where
  "audioFilename word = word @ ''.mp3''"

definition audioPath :: "config \<Rightarrow> string \<Rightarrow> string" where
  "audioPath cfg word = filepath_Join cfg audioDir (audioFilename word)"

text \<open>
  \<open>os.Stat\<close> as the loop sees it: an error that is not "not exist", the error
  "not exist" when the store has no file at the path, or success.
\<close>

datatype stat_result = StatOk | StatNotExist | StatOtherError

definition os_Stat :: "state \<Rightarrow> world \<Rightarrow> string \<Rightarrow> stat_result" where
  "os_Stat st w path =
     (if os_Stat_err w then StatOtherError
      else case files st path of None \<Rightarrow> StatNotExist | Some content \<Rightarrow> StatOk)"

definition IsNotExist :: "stat_result \<Rightarrow> bool" where
  "IsNotExist r = (r = StatNotExist)"

definition elevenLabsReq :: "string \<Rightarrow> ElevenLabsRequest" where
  "elevenLabsReq word =
     \<lparr>req_Text = word, ModelID = ''eleven_multilingual_v2'', VoiceID = voiceID,
      VoiceSettings = \<lparr>Stability = 0.5, SimilarityBoost = 0.5\<rparr>\<rparr>"

text \<open>
  Lines 182-250, the audio stage. The result is paired with a flag: \<open>False\<close> where the
  source leaves the loop body with \<open>continue\<close>, \<open>True\<close> where it goes on to line 252.
\<close>

definition generate_audio :: "config \<Rightarrow> world \<Rightarrow> string \<Rightarrow> state \<Rightarrow> bool \<times> state" where
  "generate_audio cfg w word st =
     (if IsNotExist (os_Stat st w (audioPath cfg word)) then
        if json_Marshal_err w then (False, log_Printf (ErrorCreatingRequest word) st)
        else if http_NewRequest_err w then (False, log_Printf (ErrorCreatingHTTPRequest word) st)
        else
          let st1 = st\<lparr>trace := trace st @
                [HttpPost (elevenLabsBaseURL @ ''/'' @ voiceID)
                   [(''Content-Type'', ''application/json''), (''xi-api-key'', elevenLabsAPIKey cfg)]
                   (elevenLabsReq word)]\<rparr>
          in case client_Do w of
               DoError \<Rightarrow> (False, log_Printf (ErrorGeneratingAudio word) st1)
             | DoResponse code body \<Rightarrow>
                 if code \<noteq> StatusOK then (False, log_Printf (ElevenLabsAPIError word code body) st1)
                 else if os_Create_err w then (False, log_Printf (ErrorCreatingAudioFile word) st1)
                 else (case io_Copy w of
                         Some n \<Rightarrow>
                           (False, log_Printf (ErrorSavingAudioFile word)
                                     (st1\<lparr>files := (files st1)(audioPath cfg word \<mapsto> take n body)\<rparr>))
                       | None \<Rightarrow>
                           (True, log_Printf (CreatedAudioFile word)
                                    (st1\<lparr>files := (files st1)(audioPath cfg word \<mapsto> body)\<rparr>)))
      else (True, log_Printf (AudioFileAlreadyExists word) st))"

text \<open>Lines 252-264: the sound field, the CSV row and the counter.\<close>

definition soundField :: "string \<Rightarrow> string" where
  "soundField word = ''[sound:'' @ audioFilename word @ '']''"

definition write_row :: "world \<Rightarrow> string \<Rightarrow> string \<Rightarrow> string \<Rightarrow> state \<Rightarrow> state" where
  "write_row w word exampleSentence translation st =
     (let st1 = st\<lparr>csv := csv st @ [[word, exampleSentence, soundField word, translation]]\<rparr>;
          st2 = (if csv_Write_err w then log_Printf (ErrorWritingCSVRow word) st1 else st1)
      in st2\<lparr>processedWords := processedWords st2 + 1\<rparr>)"

text \<open>Line 149: the URL of the translation request.\<close>

definition url :: "config \<Rightarrow> string \<Rightarrow> string" where
  "url cfg word =
     yandexBaseURL @ ''?key='' @ yandexAPIKey cfg @ ''&lang='' @ lang @ ''&text='' @ word"

text \<open>Lines 132-264: the body of the loop, for one row and the world's answers for it.\<close>

definition process_row :: "config \<Rightarrow> state \<Rightarrow> row \<times> world \<Rightarrow> state" where
  "process_row cfg st rw =
     (let r = fst rw; w = snd rw in
      if length (Cells r) < 2 then st
      else
        let word = Cells r ! 0;
            definition' = Cells r ! 1;
            exampleSentence = definition';
            st1 = st\<lparr>trace := trace st @ [HttpGet (url cfg word)]\<rparr>
        in case http_Get w of
             GetError \<Rightarrow> log_Printf (ErrorFetchingTranslation word) st1
           | GetResponse code body \<Rightarrow>
               (case body of
                  ReadError \<Rightarrow> log_Printf (ErrorReadingResponse word) st1
                | Malformed \<Rightarrow> log_Printf (ErrorParsingJSON word) st1
                | Decoded result \<Rightarrow>
                    (case generate_audio cfg w word st1 of
                       (ok, st2) \<Rightarrow>
                         if ok then write_row w word exampleSentence (russian result) st2
                         else st2)))"

text \<open>Line 131: the loop over the rows of the sheet, in order.\<close>

fun run :: "config \<Rightarrow> state \<Rightarrow> (row \<times> world) list \<Rightarrow> state" where
  "run cfg st [] = st"
| "run cfg st (rw # rest) = run cfg (process_row cfg st rw) rest"

section \<open>Notions used by the properties\<close>

text \<open>
  A row is an entry of the loop when it passes the guard of line 133; its word is its
  first cell.
\<close>

definition has_two_cells :: "row \<times> world \<Rightarrow> bool" where
  "has_two_cells rw = (2 \<le> length (Cells (fst rw)))"

definition word_of :: "row \<times> world \<Rightarrow> string" where
  "word_of rw = Cells (fst rw) ! 0"

text \<open>
  The translation stage fails where the source leaves the loop body on lines 151-169:
  \<open>http.Get\<close>, \<open>io.ReadAll\<close> or \<open>json.Unmarshal\<close> returns an error. The status
  code of the response is not looked at.
\<close>

definition translation_fails :: "world \<Rightarrow> bool" where
  "translation_fails w =
     (case http_Get w of
        GetError \<Rightarrow> True
      | GetResponse code body \<Rightarrow>
          (case body of ReadError \<Rightarrow> True | Malformed \<Rightarrow> True | Decoded result \<Rightarrow> False))"

text \<open>
  The synthesis stage fails where the source leaves the loop body on lines 194-243: the
  file is reported missing and one of the calls from \<open>json.Marshal\<close> to \<open>io.Copy\<close>
  returns an error, or the response status is not 200.
\<close>

definition synthesis_fails :: "config \<Rightarrow> state \<Rightarrow> world \<Rightarrow> string \<Rightarrow> bool" where
  "synthesis_fails cfg st w word =
     (IsNotExist (os_Stat st w (audioPath cfg word)) \<and>
      (json_Marshal_err w \<or> http_NewRequest_err w \<or>
       (case client_Do w of
          DoError \<Rightarrow> True
        | DoResponse code body \<Rightarrow> code \<noteq> StatusOK \<or> os_Create_err w \<or> io_Copy w \<noteq> None)))"

definition stage_fails :: "config \<Rightarrow> state \<Rightarrow> row \<times> world \<Rightarrow> bool" where
  "stage_fails cfg st rw =
     (translation_fails (snd rw) \<or> synthesis_fails cfg st (snd rw) (word_of rw))"

text \<open>
  The output row of an entry: word, gloss, sound reference and the translation decoded
  from the dictionary response.
\<close>

definition translation_of :: "world \<Rightarrow> string" where
  "translation_of w =
     (case http_Get w of
        GetError \<Rightarrow> ''''
      | GetResponse code body \<Rightarrow>
          (case body of ReadError \<Rightarrow> '''' | Malformed \<Rightarrow> '''' | Decoded result \<Rightarrow> russian result))"

definition output_row :: "row \<times> world \<Rightarrow> string list" where
  "output_row rw =
     [Cells (fst rw) ! 0, Cells (fst rw) ! 1,
      ''[sound:'' @ Cells (fst rw) ! 0 @ ''.mp3]'', translation_of (snd rw)]"

text \<open>
  The entries of a batch that clear both stages, each judged in the state the loop has
  reached when it is processed.
\<close>

fun emitted_entries :: "config \<Rightarrow> state \<Rightarrow> (row \<times> world) list \<Rightarrow> (row \<times> world) list" where
  "emitted_entries cfg st [] = []"
| "emitted_entries cfg st (rw # rest) =
     (if has_two_cells rw \<and> \<not> stage_fails cfg st rw then [rw] else []) @
     emitted_entries cfg (process_row cfg st rw) rest"


text \<open>
  The events a run adds to the trace, and the test whether an event is a synthesis
  request for a given word.
\<close>

definition is_synthesis_for :: "string \<Rightarrow> event \<Rightarrow> bool" where
  "is_synthesis_for word e =
     (case e of HttpGet u \<Rightarrow> False | HttpPost u hdrs req \<Rightarrow> req_Text req = word | Log m \<Rightarrow> False)"

definition events_of :: "config \<Rightarrow> state \<Rightarrow> (row \<times> world) list \<Rightarrow> event list" where
  "events_of cfg st rows = drop (length (trace st)) (trace (run cfg st rows))"

text \<open>
  The specification's wording of two notions, for comparison with the code.
  \<open>spec_translation\<close> reads "definitions[0].translations[0].text when the response
  contains at least one definition, the empty string when it contains none", with Go's
  indexing, which has no value outside the range of the slice.
  \<open>spec_non_empty_cells\<close> counts the cells of a row that are not empty.
\<close>

definition go_index :: "'a list \<Rightarrow> nat \<Rightarrow> 'a option" where
  "go_index xs i = (if i < length xs then Some (xs ! i) else None)"

definition spec_translation :: "DicResult \<Rightarrow> string option" where
  "spec_translation result =
     (if Def result \<noteq> [] then
        (case go_index (Def result) 0 of
           None \<Rightarrow> None
         | Some d \<Rightarrow> (case go_index (Tr d) 0 of None \<Rightarrow> None | Some t \<Rightarrow> Some (tr_Text t)))
      else Some '''')"

definition spec_non_empty_cells :: "row \<Rightarrow> nat" where
  "spec_non_empty_cells r = length (filter (\<lambda>c. c \<noteq> []) (Cells r))"

section \<open>Example inputs\<close>

text \<open>
  A configuration whose \<open>filepath.Join\<close> puts a slash between directory and file
  name, an empty audio store, dictionary answers with one translation, with no definition
  and with a definition without translations, and worlds that differ from the one where
  every call succeeds in a single answer.
\<close>

definition example_config :: config where
  "example_config =
     \<lparr>yandexAPIKey = ''dict-key'', elevenLabsAPIKey = ''tts-key'',
      filepath_Join = (\<lambda>dir name. dir @ ''/'' @ name)\<rparr>"

text \<open>
  A configuration whose \<open>filepath.Join\<close> also drops a leading \<open>./\<close> of the file name,
  as the path cleaning of Go's \<open>filepath.Join\<close> does:
  \<open>filepath.Join("audio", "./hello.mp3")\<close> is \<open>audio/hello.mp3\<close>.
\<close>

definition cleaning_config :: config where
  "cleaning_config =
     \<lparr>yandexAPIKey = ''dict-key'', elevenLabsAPIKey = ''tts-key'',
      filepath_Join =
        (\<lambda>dir name. dir @ ''/'' @ (if take 2 name = ''./'' then drop 2 name else name))\<rparr>"

definition empty_state :: state where
  "empty_state = \<lparr>files = (\<lambda>p. None), csv = [], trace = [], processedWords = 0\<rparr>"

definition cached_state :: state where
  "cached_state =
     empty_state\<lparr>files := (\<lambda>p. if p = ''audio/hello.mp3'' then Some '''' else None)\<rparr>"

definition privet_result :: DicResult where
  "privet_result =
     \<lparr>Head = ''{}'',
      Def = [\<lparr>Text = ''hello'', Pos = ''noun'',
              Tr = [Translation ''privet'' ''noun'' [] [] []]\<rparr>]\<rparr>"

definition no_def_result :: DicResult where
  "no_def_result = \<lparr>Head = ''{}'', Def = []\<rparr>"

definition no_tr_result :: DicResult where
  "no_tr_result = \<lparr>Head = ''{}'', Def = [\<lparr>Text = ''hello'', Pos = ''noun'', Tr = []\<rparr>]\<rparr>"

definition good_world :: world where
  "good_world =
     \<lparr>http_Get = GetResponse 200 (Decoded privet_result), os_Stat_err = False,
      json_Marshal_err = False, http_NewRequest_err = False,
      client_Do = DoResponse 200 ''ID3'', os_Create_err = False, io_Copy = None,
      csv_Write_err = False\<rparr>"

definition failing_synthesis_world :: world where
  "failing_synthesis_world = good_world\<lparr>client_Do := DoResponse 500 ''quota exceeded''\<rparr>"

definition no_def_world :: world where
  "no_def_world = good_world\<lparr>http_Get := GetResponse 200 (Decoded no_def_result)\<rparr>"

definition forbidden_world :: world where
  "forbidden_world = good_world\<lparr>http_Get := GetResponse 403 (Decoded no_def_result)\<rparr>"

definition stat_error_world :: world where
  "stat_error_world = good_world\<lparr>os_Stat_err := True\<rparr>"

definition copy_fails_world :: world where
  "copy_fails_world = good_world\<lparr>io_Copy := Some 1\<rparr>"

definition service_down_world :: world where
  "service_down_world = good_world\<lparr>client_Do := DoError\<rparr>"

definition hello_row :: row where
  "hello_row = \<lparr>Cells = [''hello'', ''a greeting'']\<rparr>"

definition world_row :: row where
  "world_row = \<lparr>Cells = [''world'', ''the earth'']\<rparr>"

definition bye_row :: row where
  "bye_row = \<lparr>Cells = [''bye'', ''a farewell'']\<rparr>"

definition blank_word_row :: row where
  "blank_word_row = \<lparr>Cells = ['''', ''a greeting'']\<rparr>"

definition one_cell_row :: row where
  "one_cell_row = \<lparr>Cells = [''hello'']\<rparr>"

definition dot_hello_row :: row where
  "dot_hello_row = \<lparr>Cells = [''./hello'', ''a greeting'']\<rparr>"

section \<open>Unfolding the definitions\<close>

lemmas loop_defs =
  process_row_def generate_audio_def write_row_def log_Printf_def os_Stat_def IsNotExist_def
  audioPath_def audioFilename_def audioDir_def soundField_def url_def yandexBaseURL_def
  lang_def elevenLabsBaseURL_def voiceID_def StatusOK_def russian_def Let_def

lemmas claim_defs =
  has_two_cells_def word_of_def translation_fails_def synthesis_fails_def stage_fails_def
  translation_of_def output_row_def is_synthesis_for_def events_of_def

lemmas example_defs =
  example_config_def empty_state_def privet_result_def no_def_result_def no_tr_result_def
  good_world_def hello_row_def world_row_def bye_row_def blank_word_row_def
  failing_synthesis_world_def no_def_world_def forbidden_world_def stat_error_world_def
  cached_state_def one_cell_row_def copy_fails_world_def service_down_world_def
  cleaning_config_def dot_hello_row_def

section \<open>The loop body, step by step\<close>

lemma process_row_short: "\<not> has_two_cells rw \<Longrightarrow> process_row cfg st rw = st"
  by (simp add: process_row_def has_two_cells_def)

lemma generate_audio_csv: "csv (snd (generate_audio cfg w word st)) = csv st"
  by (simp add: generate_audio_def log_Printf_def Let_def split: do_result.splits option.splits)

lemma generate_audio_ok:
  "fst (generate_audio cfg w word st) = (\<not> synthesis_fails cfg st w word)"
  by (auto simp add: generate_audio_def synthesis_fails_def Let_def split: do_result.splits option.splits)

lemma os_Stat_trace [simp]: "os_Stat (st\<lparr>trace := t\<rparr>) w p = os_Stat st w p"
  by (simp add: os_Stat_def)

lemma synthesis_fails_trace [simp]:
  "synthesis_fails cfg (st\<lparr>trace := t\<rparr>) w word = synthesis_fails cfg st w word"
  by (simp add: synthesis_fails_def)

lemma csv_process_row:
  assumes "has_two_cells rw"
  shows "csv (process_row cfg st rw) =
     (if stage_fails cfg st rw then csv st else csv st @ [output_row rw])"
proof -
  define st1 where "st1 = st\<lparr>trace := trace st @ [HttpGet (url cfg (word_of rw))]\<rparr>"
  obtain ok st2 where g: "generate_audio cfg (snd rw) (word_of rw) st1 = (ok, st2)"
    by (cases "generate_audio cfg (snd rw) (word_of rw) st1")
  have ok: "ok = (\<not> synthesis_fails cfg st (snd rw) (word_of rw))"
    using generate_audio_ok [of cfg "snd rw" "word_of rw" st1] g by (simp add: st1_def)
  have c: "csv st2 = csv st"
    using generate_audio_csv [of cfg "snd rw" "word_of rw" st1] g by (simp add: st1_def)
  show ?thesis
    using assms g ok c
    unfolding process_row_def has_two_cells_def stage_fails_def translation_fails_def
      output_row_def translation_of_def Let_def st1_def [symmetric] word_of_def [symmetric]
    by (auto simp add: log_Printf_def write_row_def soundField_def audioFilename_def Let_def st1_def word_of_def
        split: get_result.splits dic_body.splits)
qed

lemma generate_audio_http_Get [simp]:
  "generate_audio cfg (w\<lparr>http_Get := g\<rparr>) word st = generate_audio cfg w word st"
  by (simp add: generate_audio_def os_Stat_def Let_def split: do_result.splits option.splits)

lemma write_row_http_Get [simp]:
  "write_row (w\<lparr>http_Get := g\<rparr>) word ex t st = write_row w word ex t st"
  by (simp add: write_row_def)

lemma process_row_decoded:
  assumes "2 \<le> length (Cells r)" and "http_Get w = GetResponse code (Decoded result)"
  shows "process_row cfg st (r, w) =
     (let g = generate_audio cfg w (Cells r ! 0)
                (st\<lparr>trace := trace st @ [HttpGet (url cfg (Cells r ! 0))]\<rparr>)
      in if fst g then write_row w (Cells r ! 0) (Cells r ! 1) (russian result) (snd g)
         else snd g)"
  using assms by (simp add: process_row_def Let_def split: prod.splits)

lemma write_row_fields:
  "files (write_row w word ex t st) = files st"
  "trace (write_row w word ex t st) =
     trace st @ (if csv_Write_err w then [Log (ErrorWritingCSVRow word)] else [])"
  "csv (write_row w word ex t st) = csv st @ [[word, ex, soundField word, t]]"
  "processedWords (write_row w word ex t st) = processedWords st + 1"
  by (simp_all add: write_row_def log_Printf_def Let_def)

section \<open>The audio store\<close>

lemma generate_audio_files_other:
  "p \<noteq> audioPath cfg word \<Longrightarrow> files (snd (generate_audio cfg w word st)) p = files st p"
  by (simp add: generate_audio_def log_Printf_def Let_def split: do_result.splits option.splits)

lemma generate_audio_files_present:
  "files st (audioPath cfg word) \<noteq> None \<Longrightarrow> files (snd (generate_audio cfg w word st)) = files st"
  by (auto simp add: generate_audio_def log_Printf_def Let_def os_Stat_def IsNotExist_def
      split: do_result.splits option.splits)


lemma process_row_files_other:
  assumes "has_two_cells rw \<longrightarrow> p \<noteq> audioPath cfg (word_of rw)"
  shows "files (process_row cfg st rw) p = files st p"
proof (cases "has_two_cells rw")
  case False
  then show ?thesis by (simp add: process_row_short)
next
  case True
  define st1 where "st1 = st\<lparr>trace := trace st @ [HttpGet (url cfg (word_of rw))]\<rparr>"
  obtain ok st2 where g: "generate_audio cfg (snd rw) (word_of rw) st1 = (ok, st2)"
    by (cases "generate_audio cfg (snd rw) (word_of rw) st1")
  have "files st2 p = files st p"
    using generate_audio_files_other [of p cfg "word_of rw" "snd rw" st1] g assms True
    by (simp add: st1_def)
  then show ?thesis
    using True g
    unfolding process_row_def has_two_cells_def Let_def st1_def [symmetric] word_of_def [symmetric]
    by (auto simp add: log_Printf_def write_row_def Let_def st1_def
        split: get_result.splits dic_body.splits)
qed

lemma process_row_files_present:
  assumes "files st p \<noteq> None"
  shows "files (process_row cfg st rw) p = files st p"
proof (cases "has_two_cells rw \<and> p = audioPath cfg (word_of rw)")
  case False
  then show ?thesis by (simp add: process_row_files_other)
next
  case True
  define st1 where "st1 = st\<lparr>trace := trace st @ [HttpGet (url cfg (word_of rw))]\<rparr>"
  obtain ok st2 where g: "generate_audio cfg (snd rw) (word_of rw) st1 = (ok, st2)"
    by (cases "generate_audio cfg (snd rw) (word_of rw) st1")
  have "files st2 = files st"
    using generate_audio_files_present [of st1 cfg "word_of rw" "snd rw"] g assms True
    by (simp add: st1_def)
  then show ?thesis
    using True g
    unfolding process_row_def has_two_cells_def Let_def st1_def [symmetric] word_of_def [symmetric]
    by (auto simp add: log_Printf_def write_row_def Let_def st1_def
        split: get_result.splits dic_body.splits)
qed

lemma process_row_files_eq:
  "has_two_cells rw \<Longrightarrow>
   files (process_row cfg st rw) =
     (if translation_fails (snd rw) then files st
      else files (snd (generate_audio cfg (snd rw) (word_of rw) st)))"
proof -
  assume t: "has_two_cells rw"
  define st1 where "st1 = st\<lparr>trace := trace st @ [HttpGet (url cfg (word_of rw))]\<rparr>"
  have f: "files (snd (generate_audio cfg (snd rw) (word_of rw) st1)) =
        files (snd (generate_audio cfg (snd rw) (word_of rw) st))"
    by (simp add: st1_def generate_audio_def log_Printf_def Let_def os_Stat_def IsNotExist_def
        split: do_result.splits option.splits)
  obtain ok st2 where g: "generate_audio cfg (snd rw) (word_of rw) st1 = (ok, st2)"
    by (cases "generate_audio cfg (snd rw) (word_of rw) st1")
  show ?thesis
    using t g f
    unfolding process_row_def has_two_cells_def Let_def st1_def [symmetric] word_of_def [symmetric]
    by (auto simp add: log_Printf_def write_row_def Let_def st1_def translation_fails_def
        split: get_result.splits dic_body.splits)
qed




section \<open>The trace\<close>

lemma generate_audio_trace:
  "\<exists>evs. trace (snd (generate_audio cfg w word st)) = trace st @ evs \<and>
     (\<forall>e\<in>set evs. is_synthesis_for word' e \<longrightarrow>
        word' = word \<and> files st (audioPath cfg word) = None)"
  by (auto simp add: generate_audio_def log_Printf_def Let_def os_Stat_def IsNotExist_def
      is_synthesis_for_def elevenLabsReq_def
      split: do_result.splits option.splits if_splits)

lemma process_row_trace:
  "\<exists>evs. trace (process_row cfg st rw) = trace st @ evs \<and>
     (\<forall>e\<in>set evs. is_synthesis_for word' e \<longrightarrow>
        has_two_cells rw \<and> word' = word_of rw \<and> files st (audioPath cfg word') = None)"
proof (cases "has_two_cells rw")
  case False
  then show ?thesis by (simp add: process_row_short)
next
  case True
  define st1 where "st1 = st\<lparr>trace := trace st @ [HttpGet (url cfg (word_of rw))]\<rparr>"
  obtain ok st2 where g: "generate_audio cfg (snd rw) (word_of rw) st1 = (ok, st2)"
    by (cases "generate_audio cfg (snd rw) (word_of rw) st1")
  obtain evs where evs: "trace st2 = trace st1 @ evs"
    "\<forall>e\<in>set evs. is_synthesis_for word' e \<longrightarrow>
        word' = word_of rw \<and> files st1 (audioPath cfg (word_of rw)) = None"
    using generate_audio_trace [of cfg "snd rw" "word_of rw" st1 word'] g by auto
  show ?thesis
    using True g evs
    unfolding process_row_def has_two_cells_def Let_def st1_def [symmetric] word_of_def [symmetric]
    by (auto simp add: log_Printf_def write_row_def Let_def st1_def is_synthesis_for_def
        split: get_result.splits dic_body.splits)
qed


lemma run_trace:
  "\<exists>evs. trace (run cfg st rows) = trace st @ evs \<and>
     (\<forall>e\<in>set evs. is_synthesis_for word e \<longrightarrow> files st (audioPath cfg word) = None)"
proof (induction rows arbitrary: st)
  case Nil
  then show ?case by simp
next
  case (Cons rw rest)
  obtain evs1 where e1: "trace (process_row cfg st rw) = trace st @ evs1"
    "\<forall>e\<in>set evs1. is_synthesis_for word e \<longrightarrow> files st (audioPath cfg word) = None"
    using process_row_trace [of cfg st rw word] by blast
  obtain evs2 where e2: "trace (run cfg (process_row cfg st rw) rest) = trace (process_row cfg st rw) @ evs2"
    "\<forall>e\<in>set evs2. is_synthesis_for word e \<longrightarrow> files (process_row cfg st rw) (audioPath cfg word) = None"
    using Cons.IH [of "process_row cfg st rw"] by blast
  have "\<forall>e\<in>set evs2. is_synthesis_for word e \<longrightarrow> files st (audioPath cfg word) = None"
    using e2(2) process_row_files_present [of st "audioPath cfg word" cfg rw] by metis
  then show ?case using e1 e2 by auto
qed

section \<open>Entries do not interfere\<close>



lemma csv_run:
  "csv (run cfg st rows) = csv st @ map output_row (emitted_entries cfg st rows)"
proof (induction rows arbitrary: st)
  case Nil
  then show ?case by simp
next
  case (Cons rw rest)
  show ?case
  proof (cases "has_two_cells rw")
    case True
    then show ?thesis using Cons.IH [of "process_row cfg st rw"] by (simp add: csv_process_row)
  next
    case False
    then show ?thesis using Cons.IH [of st] by (simp add: process_row_short)
  qed
qed

lemma subseq_emitted: "subseq (emitted_entries cfg st rows) rows"
  by (induction rows arbitrary: st) auto



text \<open>
  The one trace a failed entry can leave in the store: when \<open>io.Copy\<close> fails, the file
  has been created and holds what was copied. A later entry with the same audio path finds
  it and is handled as a cache hit, also where its own synthesis request would have failed.
\<close>

lemma partial_file_is_taken_as_cached:
  "csv (run example_config empty_state
          [(hello_row, copy_fails_world), (hello_row, service_down_world)]) =
     [[''hello'', ''a greeting'', ''[sound:hello.mp3]'', ''privet'']] \<and>
   files (run example_config empty_state
          [(hello_row, copy_fails_world), (hello_row, service_down_world)])
     ''audio/hello.mp3'' = Some ''I'' \<and>
   csv (run example_config empty_state [(hello_row, service_down_world)]) = []"
  by (simp add: example_defs loop_defs)

lemma malformed_body_is_skipped:
  assumes "2 \<le> length (Cells r)" and "http_Get w = GetResponse code Malformed"
  shows "process_row cfg st (r, w) =
     st\<lparr>trace := trace st @
          [HttpGet (url cfg (Cells r ! 0)), Log (ErrorParsingJSON (Cells r ! 0))]\<rparr>"
  using assms by (simp add: process_row_def log_Printf_def Let_def)

lemma generate_audio_file_written:
  "fst (generate_audio cfg w word st) \<Longrightarrow> \<not> os_Stat_err w \<Longrightarrow>
   files (snd (generate_audio cfg w word st)) (audioPath cfg word) \<noteq> None"
  by (auto simp add: generate_audio_def log_Printf_def Let_def os_Stat_def IsNotExist_def
      split: do_result.splits option.splits if_splits)

lemma emitted_row_has_file_unless_stat_error:
  assumes "has_two_cells rw" and "\<not> stage_fails cfg st rw" and "\<not> os_Stat_err (snd rw)"
  shows "files (process_row cfg st rw) (audioPath cfg (word_of rw)) \<noteq> None"
proof -
  have "fst (generate_audio cfg (snd rw) (word_of rw) st)"
    using assms(2) by (simp add: generate_audio_ok stage_fails_def)
  then have "files (snd (generate_audio cfg (snd rw) (word_of rw) st)) (audioPath cfg (word_of rw)) \<noteq> None"
    using assms(3) by (rule generate_audio_file_written)
  moreover have "\<not> translation_fails (snd rw)" using assms(2) by (simp add: stage_fails_def)
  ultimately show ?thesis using assms(1) by (simp add: process_row_files_eq)
qed

section \<open>The properties\<close>




text \<open>
  C2. When the audio file of a word is in the store, whatever its content (an empty file
  included), no run of the loop from that state sends a synthesis request for that word.
\<close>

theorem cached_word_not_synthesized:
  assumes "files st (audioPath cfg word) = Some content"
  shows "filter (is_synthesis_for word) (events_of cfg st rows) = []"
  using run_trace [of cfg st rows word] assms by (auto simp add: events_of_def filter_empty_conv)

theorem cached_word_not_synthesized_witness:
  "files cached_state (audioPath example_config ''hello'') = Some '''' \<and>
   filter (is_synthesis_for ''hello'')
     (events_of example_config cached_state [(hello_row, good_world)]) = []"
proof -
  have h: "files cached_state (audioPath example_config ''hello'') = Some ''''"
    by (simp add: cached_state_def example_defs loop_defs)
  show ?thesis using cached_word_not_synthesized [OF h] h by blast
qed

text \<open>
  C3. A dictionary response with a status other than success should make the translation
  stage fail and the word be skipped. The loop body never reads the status code of the
  dictionary response: for a response with status 403 whose body decodes without
  definitions, it sends the synthesis request and writes the row with an empty
  translation. (A body that does not decode is skipped, see \<open>malformed_body_is_skipped\<close>.)
\<close>

theorem non_success_status_not_skipped:
  "http_Get forbidden_world = GetResponse 403 (Decoded no_def_result) \<and>
   csv (process_row example_config empty_state (hello_row, forbidden_world)) =
     [[''hello'', ''a greeting'', ''[sound:hello.mp3]'', '''']] \<and>
   trace (process_row example_config empty_state (hello_row, forbidden_world)) =
     [HttpGet ''https://dictionary.yandex.net/api/v1/dicservice.json/lookup?key=dict-key&lang=en-ru&text=hello'',
      HttpPost ''https://api.elevenlabs.io/v1/text-to-speech/21m00Tcm4TlvDq8ikWAM''
        [(''Content-Type'', ''application/json''), (''xi-api-key'', ''tts-key'')]
        (elevenLabsReq ''hello''),
      Log (CreatedAudioFile ''hello'')]"
  by (simp add: example_defs loop_defs)

text \<open>
  C4. For a dictionary response that decodes with no definition, or whose first definition
  has no translation, the row is written with the empty string as translation whenever
  the audio stage does not fail; and the audio store, the trace and the number of rows
  written are those of any other decoded response, so the audio stage is not affected.
\<close>

theorem empty_translation_still_emitted:
  assumes "2 \<le> length (Cells r)"
    and "http_Get w = GetResponse code (Decoded result)"
    and "Def result = [] \<or> Tr (Def result ! 0) = []"
  shows "(\<not> synthesis_fails cfg st w (Cells r ! 0) \<longrightarrow>
            csv (process_row cfg st (r, w)) =
              csv st @ [[Cells r ! 0, Cells r ! 1, ''[sound:'' @ Cells r ! 0 @ ''.mp3]'', '''']]) \<and>
         files (process_row cfg st (r, w\<lparr>http_Get := GetResponse code' (Decoded result')\<rparr>)) =
           files (process_row cfg st (r, w)) \<and>
         trace (process_row cfg st (r, w\<lparr>http_Get := GetResponse code' (Decoded result')\<rparr>)) =
           trace (process_row cfg st (r, w)) \<and>
         length (csv (process_row cfg st (r, w\<lparr>http_Get := GetResponse code' (Decoded result')\<rparr>))) =
           length (csv (process_row cfg st (r, w)))"
proof -
  have r: "russian result = ''''" using assms(3) by (auto simp add: russian_def)
  have two: "has_two_cells (r, w)" using assms(1) by (simp add: has_two_cells_def)
  have "\<not> translation_fails w" using assms(2) by (simp add: translation_fails_def)
  then have a: "\<not> synthesis_fails cfg st w (Cells r ! 0) \<Longrightarrow>
      csv (process_row cfg st (r, w)) =
        csv st @ [[Cells r ! 0, Cells r ! 1, ''[sound:'' @ Cells r ! 0 @ ''.mp3]'', '''']]"
    using csv_process_row [OF two, of cfg st] assms(2) r
    by (simp add: stage_fails_def word_of_def output_row_def translation_of_def)
  let ?w' = "w\<lparr>http_Get := GetResponse code' (Decoded result')\<rparr>"
  have p: "process_row cfg st (r, w) =
     (let g = generate_audio cfg w (Cells r ! 0)
                (st\<lparr>trace := trace st @ [HttpGet (url cfg (Cells r ! 0))]\<rparr>)
      in if fst g then write_row w (Cells r ! 0) (Cells r ! 1) (russian result) (snd g)
         else snd g)"
    using assms(1,2) by (rule process_row_decoded)
  have p': "process_row cfg st (r, ?w') =
     (let g = generate_audio cfg w (Cells r ! 0)
                (st\<lparr>trace := trace st @ [HttpGet (url cfg (Cells r ! 0))]\<rparr>)
      in if fst g then write_row w (Cells r ! 0) (Cells r ! 1) (russian result') (snd g)
         else snd g)"
    using process_row_decoded [of r ?w' code' result' cfg st] assms(1) by (simp add: Let_def)
  show ?thesis using a by (simp add: p p' Let_def write_row_fields)
qed

theorem empty_translation_still_emitted_witness:
  "2 \<le> length (Cells hello_row) \<and>
   http_Get no_def_world = GetResponse 200 (Decoded no_def_result) \<and>
   Def no_def_result = [] \<and>
   \<not> synthesis_fails example_config empty_state no_def_world (Cells hello_row ! 0) \<and>
   csv (process_row example_config empty_state (hello_row, no_def_world)) =
     [[''hello'', ''a greeting'', ''[sound:hello.mp3]'', '''']]"
proof -
  have h1: "2 \<le> length (Cells hello_row)" by (simp add: example_defs)
  have h2: "http_Get no_def_world = GetResponse 200 (Decoded no_def_result)"
    by (simp add: example_defs)
  have h3: "Def no_def_result = []" by (simp add: example_defs)
  have h4: "\<not> synthesis_fails example_config empty_state no_def_world (Cells hello_row ! 0)"
    by (simp add: claim_defs example_defs loop_defs)
  have "Def no_def_result = [] \<or> Tr (Def no_def_result ! 0) = []" using h3 by simp
  from empty_translation_still_emitted [OF h1 h2 this, of example_config empty_state]
  have "csv (process_row example_config empty_state (hello_row, no_def_world)) =
      csv empty_state @ [[Cells hello_row ! 0, Cells hello_row ! 1,
         ''[sound:'' @ Cells hello_row ! 0 @ ''.mp3]'', '''']]"
    using h4 by blast
  then show ?thesis using h1 h2 h3 h4 by (simp add: example_defs)
qed

text \<open>
  C5. The file named by the sound reference of a written row should be in the audio store
  when the row is written. Where \<open>os.Stat\<close> fails with an error other than "not exist",
  the loop body takes the branch for an existing file: the row is written and the store
  has no file at the path. (Without such an error the file is there, see
  \<open>emitted_row_has_file_unless_stat_error\<close>.)
\<close>

theorem row_emitted_without_audio_file:
  "os_Stat_err stat_error_world \<and>
   csv (process_row example_config empty_state (bye_row, stat_error_world)) =
     [[''bye'', ''a farewell'', ''[sound:bye.mp3]'', ''privet'']] \<and>
   files (process_row example_config empty_state (bye_row, stat_error_world))
     (audioPath example_config ''bye'') = None"
  by (simp add: example_defs loop_defs)

text \<open>
  C6. The rows written by a run are the output rows of the entries that clear both stages,
  in the order of the input: a subsequence of the input, nothing reordered, repeated or
  written for a skipped entry.
\<close>

theorem rows_in_input_order:
  "csv (run cfg st rows) = csv st @ map output_row (emitted_entries cfg st rows) \<and>
   subseq (emitted_entries cfg st rows) rows"
  by (simp add: csv_run subseq_emitted)

theorem rows_in_input_order_witness:
  "emitted_entries example_config empty_state
     [(hello_row, good_world), (world_row, failing_synthesis_world), (bye_row, no_def_world)] =
     [(hello_row, good_world), (bye_row, no_def_world)] \<and>
   csv (run example_config empty_state
     [(hello_row, good_world), (world_row, failing_synthesis_world), (bye_row, no_def_world)]) =
     [[''hello'', ''a greeting'', ''[sound:hello.mp3]'', ''privet''],
      [''bye'', ''a farewell'', ''[sound:bye.mp3]'', '''']]"
proof -
  have e: "emitted_entries example_config empty_state
     [(hello_row, good_world), (world_row, failing_synthesis_world), (bye_row, no_def_world)] =
     [(hello_row, good_world), (bye_row, no_def_world)]"
    by (simp add: claim_defs example_defs loop_defs)
  have "csv (run example_config empty_state
     [(hello_row, good_world), (world_row, failing_synthesis_world), (bye_row, no_def_world)]) =
     csv empty_state @ map output_row [(hello_row, good_world), (bye_row, no_def_world)]"
    using rows_in_input_order [of example_config empty_state
       "[(hello_row, good_world), (world_row, failing_synthesis_world), (bye_row, no_def_world)]"]
    unfolding e by blast
  then show ?thesis using e
    by (simp add: output_row_def translation_of_def russian_def example_defs)
qed

text \<open>
  C7 (amended). The translation in the written row is the text of the first translation
  of the first definition when the response has at least one definition and that
  definition has at least one translation, and the empty string otherwise. As stated
  (the first translation of the first definition whenever there is a definition), the
  property fails for a definition without translations: the code yields the empty
  string, where \<open>definitions[0].translations[0]\<close> does not exist.
\<close>

theorem translation_is_first_of_first:
  assumes "2 \<le> length (Cells r)"
    and "http_Get w = GetResponse code (Decoded result)"
    and "\<not> synthesis_fails cfg st w (Cells r ! 0)"
  shows "last (csv (process_row cfg st (r, w))) ! 3 =
           (if Def result \<noteq> [] \<and> Tr (hd (Def result)) \<noteq> []
            then tr_Text (hd (Tr (hd (Def result)))) else '''')"
proof -
  have two: "has_two_cells (r, w)" using assms(1) by (simp add: has_two_cells_def)
  have "\<not> stage_fails cfg st (r, w)"
    using assms(2,3) by (simp add: stage_fails_def translation_fails_def word_of_def)
  then have "last (csv (process_row cfg st (r, w))) ! 3 = russian result"
    using csv_process_row [OF two, of cfg st] assms(2)
    by (simp add: output_row_def translation_of_def)
  then show ?thesis by (cases "Def result") (auto simp add: russian_def hd_conv_nth)
qed

theorem translation_is_first_of_first_witness:
  "2 \<le> length (Cells bye_row) \<and>
   http_Get good_world = GetResponse 200 (Decoded privet_result) \<and>
   \<not> synthesis_fails example_config cached_state good_world (Cells bye_row ! 0) \<and>
   last (csv (process_row example_config cached_state (bye_row, good_world))) ! 3 = ''privet''"
proof -
  have h1: "2 \<le> length (Cells bye_row)" by (simp add: example_defs)
  have h2: "http_Get good_world = GetResponse 200 (Decoded privet_result)"
    by (simp add: example_defs)
  have h3: "\<not> synthesis_fails example_config cached_state good_world (Cells bye_row ! 0)"
    by (simp add: claim_defs example_defs loop_defs)
  show ?thesis
    using translation_is_first_of_first [OF h1 h2 h3] h1 h2 h3
    by (simp add: example_defs)
qed

theorem first_translation_counterexample:
  "Def no_tr_result \<noteq> [] \<and> russian no_tr_result = '''' \<and> spec_translation no_tr_result = None"
  by (simp add: no_tr_result_def russian_def spec_translation_def go_index_def)

text \<open>
  C8 (amended). A row is processed (its translation request is the first event) if and
  only if it has at least two cells, empty or not; a row with fewer cells leaves the
  state as it is: no row written, no translation request, no synthesis request. As
  stated (at least two non-empty cells), the property fails for a row whose first cell is
  empty and whose second is not: it has one non-empty cell and is processed.
\<close>

theorem rows_with_two_cells_are_processed:
  "(take 1 (events_of cfg st [(r, w)]) = [HttpGet (url cfg (Cells r ! 0))]) = (2 \<le> length (Cells r)) \<and>
   (\<not> 2 \<le> length (Cells r) \<longrightarrow> process_row cfg st (r, w) = st)"
proof (cases "2 \<le> length (Cells r)")
  case False
  then show ?thesis by (simp add: process_row_def events_of_def)
next
  case True
  obtain ok st2 evs where g: "generate_audio cfg w (Cells r ! 0)
       (st\<lparr>trace := trace st @ [HttpGet (url cfg (Cells r ! 0))]\<rparr>) = (ok, st2)"
    and t: "trace st2 = (trace st @ [HttpGet (url cfg (Cells r ! 0))]) @ evs"
    using generate_audio_trace [of cfg w "Cells r ! 0"
        "st\<lparr>trace := trace st @ [HttpGet (url cfg (Cells r ! 0))]\<rparr>" "[]"]
    by (cases "generate_audio cfg w (Cells r ! 0)
       (st\<lparr>trace := trace st @ [HttpGet (url cfg (Cells r ! 0))]\<rparr>)") auto
  show ?thesis
    using True g t
    by (auto simp add: process_row_def events_of_def Let_def log_Printf_def write_row_def
        split: get_result.splits dic_body.splits)
qed

theorem rows_with_two_cells_are_processed_witness:
  "2 \<le> length (Cells hello_row) \<and>
   take 1 (events_of example_config empty_state [(hello_row, good_world)]) =
     [HttpGet ''https://dictionary.yandex.net/api/v1/dicservice.json/lookup?key=dict-key&lang=en-ru&text=hello''] \<and>
   \<not> 2 \<le> length (Cells one_cell_row) \<and>
   process_row example_config cached_state (one_cell_row, good_world) = cached_state"
proof -
  have h1: "2 \<le> length (Cells hello_row)" by (simp add: example_defs)
  have h2: "\<not> 2 \<le> length (Cells one_cell_row)" by (simp add: example_defs)
  have a: "take 1 (events_of example_config empty_state [(hello_row, good_world)]) =
     [HttpGet (url example_config (Cells hello_row ! 0))]"
    using rows_with_two_cells_are_processed [of example_config empty_state hello_row good_world] h1
    by blast
  have b: "process_row example_config cached_state (one_cell_row, good_world) = cached_state"
    using rows_with_two_cells_are_processed [of example_config cached_state one_cell_row good_world] h2
    by blast
  show ?thesis using a b h1 h2 by (simp add: example_defs url_def yandexBaseURL_def lang_def)
qed

theorem two_cells_counterexample:
  "spec_non_empty_cells blank_word_row = 1 \<and>
   trace (process_row example_config empty_state (blank_word_row, no_def_world)) =
     [HttpGet ''https://dictionary.yandex.net/api/v1/dicservice.json/lookup?key=dict-key&lang=en-ru&text='',
      HttpPost ''https://api.elevenlabs.io/v1/text-to-speech/21m00Tcm4TlvDq8ikWAM''
        [(''Content-Type'', ''application/json''), (''xi-api-key'', ''tts-key'')]
        (elevenLabsReq ''''),
      Log (CreatedAudioFile '''')] \<and>
   csv (process_row example_config empty_state (blank_word_row, no_def_world)) =
     [['''', ''a greeting'', ''[sound:.mp3]'', '''']]"
  by (simp add: spec_non_empty_cells_def example_defs loop_defs)

text \<open>
  C9. The row written for an entry that clears both stages is the word, the gloss
  unchanged, the sound reference \<open>[sound:<word>.mp3]\<close> and the translation looked up,
  in this order.
\<close>

theorem output_row_construction:
  assumes "2 \<le> length (Cells r)"
    and "http_Get w = GetResponse code (Decoded result)"
    and "\<not> synthesis_fails cfg st w (Cells r ! 0)"
  shows "csv (process_row cfg st (r, w)) =
           csv st @ [[Cells r ! 0, Cells r ! 1, ''[sound:'' @ Cells r ! 0 @ ''.mp3]'', russian result]]"
proof -
  have two: "has_two_cells (r, w)" using assms(1) by (simp add: has_two_cells_def)
  have "\<not> stage_fails cfg st (r, w)"
    using assms(2,3) by (simp add: stage_fails_def translation_fails_def word_of_def)
  then show ?thesis
    using csv_process_row [OF two, of cfg st] assms(2)
    by (simp add: output_row_def translation_of_def)
qed

theorem output_row_construction_witness:
  "2 \<le> length (Cells hello_row) \<and>
   http_Get good_world = GetResponse 200 (Decoded privet_result) \<and>
   \<not> synthesis_fails example_config empty_state good_world (Cells hello_row ! 0) \<and>
   csv (process_row example_config empty_state (hello_row, good_world)) =
     [[''hello'', ''a greeting'', ''[sound:hello.mp3]'', ''privet'']]"
proof -
  have h1: "2 \<le> length (Cells hello_row)" by (simp add: example_defs)
  have h2: "http_Get good_world = GetResponse 200 (Decoded privet_result)"
    by (simp add: example_defs)
  have h3: "\<not> synthesis_fails example_config empty_state good_world (Cells hello_row ! 0)"
    by (simp add: claim_defs example_defs loop_defs)
  show ?thesis
    using output_row_construction [OF h1 h2 h3] h1 h2 h3
    by (simp add: example_defs russian_def)
qed

text \<open>
  C10. When \<open>os.Stat\<close> fails with an error other than "not exist", the entry is
  handled as a cache hit: no synthesis request, the log line of an existing file and no
  line of a failed stage, the row written, and the store untouched, so that the file may
  still be missing.
\<close>

theorem stat_error_is_cache_hit:
  assumes "2 \<le> length (Cells r)"
    and "http_Get w = GetResponse code (Decoded result)"
    and "os_Stat_err w"
  shows "process_row cfg st (r, w) =
     st\<lparr>trace := trace st @
           [HttpGet (url cfg (Cells r ! 0)), Log (AudioFileAlreadyExists (Cells r ! 0))] @
           (if csv_Write_err w then [Log (ErrorWritingCSVRow (Cells r ! 0))] else []),
        csv := csv st @
           [[Cells r ! 0, Cells r ! 1, ''[sound:'' @ Cells r ! 0 @ ''.mp3]'', russian result]],
        processedWords := processedWords st + 1\<rparr>"
  using assms
  by (simp add: process_row_def generate_audio_def os_Stat_def IsNotExist_def write_row_def
      log_Printf_def soundField_def audioFilename_def Let_def)

theorem stat_error_is_cache_hit_witness:
  "2 \<le> length (Cells hello_row) \<and>
   http_Get stat_error_world = GetResponse 200 (Decoded privet_result) \<and>
   os_Stat_err stat_error_world \<and>
   files empty_state (audioPath example_config ''hello'') = None \<and>
   process_row example_config empty_state (hello_row, stat_error_world) =
     \<lparr>files = (\<lambda>p. None),
      csv = [[''hello'', ''a greeting'', ''[sound:hello.mp3]'', ''privet'']],
      trace = [HttpGet ''https://dictionary.yandex.net/api/v1/dicservice.json/lookup?key=dict-key&lang=en-ru&text=hello'',
               Log (AudioFileAlreadyExists ''hello'')],
      processedWords = 1\<rparr>"
proof -
  have h1: "2 \<le> length (Cells hello_row)" by (simp add: example_defs)
  have h2: "http_Get stat_error_world = GetResponse 200 (Decoded privet_result)"
    by (simp add: example_defs)
  have h3: "os_Stat_err stat_error_world" by (simp add: example_defs)
  show ?thesis
    using stat_error_is_cache_hit [OF h1 h2 h3, of example_config empty_state] h1 h2 h3
    by (simp add: example_defs russian_def url_def yandexBaseURL_def lang_def)
qed

end
